theory Spec2Isabelle
  imports Main
begin

section \<open>JavaScript values used by the front end\<close>

text \<open>
  The front end is three React components: \<^verbatim>\<open>RepositoryForm\<close> (the intake form and its two
  request handlers), \<^verbatim>\<open>App\<close> (the coordinator holding the pipeline, loading and error
  slots) and \<^verbatim>\<open>PipelineVisualizer\<close> (the renderer).

  Strings are \<^typ>\<open>string\<close>. A value that may be \<^verbatim>\<open>undefined\<close> or \<^verbatim>\<open>null\<close> is an
  \<^typ>\<open>'a option\<close> with \<^term>\<open>None\<close> for both: the source only ever tests such values with
  \<^verbatim>\<open>!x\<close>, \<^verbatim>\<open>x && y\<close>, \<^verbatim>\<open>x || y\<close> and \<^verbatim>\<open>x?.f\<close>, which do not tell the two apart.
  The types of the fields are the ones the source relies on: the four form fields are
  the \<^verbatim>\<open>value\<close>s of text inputs, \<^verbatim>\<open>stages\<close>, \<^verbatim>\<open>commands\<close>, \<^verbatim>\<open>tools\<close> and
  \<^verbatim>\<open>recommendations\<close> receive \<^verbatim>\<open>.map\<close>, \<^verbatim>\<open>stage.type\<close> receives \<^verbatim>\<open>.replace\<close>, and the
  bodies of responses are objects whose fields are read. Values of other types (a
  \<^verbatim>\<open>detail\<close> that is an array, a \<^verbatim>\<open>stages\<close> that is a number) are outside the model.
\<close>

text \<open>A JavaScript string is falsy exactly when it is empty.\<close>

definition truthy_string :: "string \<Rightarrow> bool" where
  "truthy_string s = (s \<noteq> [])"

text \<open>\<^verbatim>\<open>undefined\<close> and \<^verbatim>\<open>null\<close> are falsy; a string is truthy when it is not empty.\<close>

fun truthy :: "string option \<Rightarrow> bool" where
  "truthy None = False"
| "truthy (Some s) = truthy_string s"

text \<open>\<^verbatim>\<open>a || b\<close>: the left operand when it is truthy, the right operand otherwise.\<close>

definition js_or :: "string option \<Rightarrow> string option \<Rightarrow> string option" where
  "js_or a b = (if truthy a then a else b)"

section \<open>RepositoryForm.jsx\<close>

subsection \<open>Data\<close>

text \<open>The state of the form, \<^verbatim>\<open>formData\<close> (lines 5-10).\<close>

record FormState =
  repository_url :: string
  repository_content :: string
  language :: string
  framework :: string

definition initial_formData :: FormState where
  "initial_formData =
     \<lparr>repository_url = [], repository_content = [], language = [], framework = []\<rparr>"

text \<open>
  The body of a successful \<^verbatim>\<open>/api/analyze-repository\<close> response, as far as the form reads
  it: \<^verbatim>\<open>response.data.language\<close> and \<^verbatim>\<open>response.data.framework\<close>. (The fields carry a
  prefix here, since the form has fields of the same names.)
\<close>

record AnalysisResult =
  res_language :: "string option"
  res_framework :: "string option"

text \<open>
  The value a rejected \<^verbatim>\<open>axios.post\<close> throws, as far as the handlers read it:
  \<^verbatim>\<open>err.response?.data?.detail\<close> and \<^verbatim>\<open>err.message\<close>. Each level of the chain may be
  missing.
\<close>

record ErrorBody =
  detail :: "string option"

record ErrorResponse =
  resp_data :: "ErrorBody option"

record AxiosError =
  err_response :: "ErrorResponse option"
  err_message :: "string option"

text \<open>
  How an awaited \<^verbatim>\<open>axios.post\<close> ends: the promise resolves with \<^verbatim>\<open>response.data\<close>, it
  rejects with an error, or it never settles (the source sets no timeout), in which case
  the handler never resumes after the \<^verbatim>\<open>await\<close>.
\<close>

datatype 'd outcome = Resolved 'd | Rejected AxiosError | Pending

text \<open>
  The document returned by \<^verbatim>\<open>/api/generate-pipeline\<close> and rendered by the visualizer.
  \<^verbatim>\<open>stage.name\<close> and \<^verbatim>\<open>stage.type\<close> are \<open>stage_name\<close> and \<open>stage_type\<close>.
\<close>

record Stage =
  stage_name :: string
  stage_type :: string
  description :: string
  commands :: "string list"
  tools :: "string list"
  estimatedDuration :: string

record PipelineDocument =
  stages :: "Stage list option"
  summary :: "string option"
  recommendations :: "string list option"

text \<open>
  What a handler does, in order: the calls of the three callbacks it received as props,
  the requests it sends, and the state updates it queues. \<^verbatim>\<open>SetFormData r\<close> stands for
  \<^verbatim>\<open>setFormData(prev => ...)\<close> of \<^verbatim>\<open>handleAnalyze\<close>, whose updater closes over the
  response \<open>r\<close>.
\<close>

datatype event =
    OnError "string option"
  | OnLoadingChange bool
  | OnPipelineGenerated PipelineDocument
  | AxiosPost string FormState
  | SetFormData AnalysisResult

subsection \<open>The handlers\<close>

text \<open>\<^verbatim>\<open>err.response?.data?.detail\<close>\<close>

definition err_detail :: "AxiosError \<Rightarrow> string option" where
  "err_detail err =
     (case err_response err of
        None \<Rightarrow> None
      | Some r \<Rightarrow> (case resp_data r of None \<Rightarrow> None | Some d \<Rightarrow> detail d))"

text \<open>\<^verbatim>\<open>err.response?.data?.detail || err.message || fallback\<close> (lines 34 and 58)\<close>

definition errorMessage :: "AxiosError \<Rightarrow> string \<Rightarrow> string option" where
  "errorMessage err fallback = js_or (js_or (err_detail err) (err_message err)) (Some fallback)"

text \<open>
  \<^verbatim>\<open>handleSubmit\<close> (lines 20-39). The parameter \<open>post\<close> is \<^verbatim>\<open>axios.post\<close>: it is asked
  only when the request is sent. \<^verbatim>\<open>e.preventDefault()\<close> acts on the browser's event
  and on nothing the handler reads.
\<close>

definition handleSubmit ::
  "(string \<Rightarrow> FormState \<Rightarrow> PipelineDocument outcome) \<Rightarrow> FormState \<Rightarrow> event list" where
  "handleSubmit post formData =
     (if \<not> truthy_string (repository_url formData) \<and> \<not> truthy_string (repository_content formData)
      then [OnError (Some ''Please provide either a repository URL or code content'')]
      else [OnLoadingChange True, AxiosPost ''/api/generate-pipeline'' formData] @
        (case post ''/api/generate-pipeline'' formData of
           Resolved d \<Rightarrow> [OnPipelineGenerated d, OnLoadingChange False]
         | Rejected err \<Rightarrow>
             [OnError (errorMessage err ''Failed to generate pipeline''), OnLoadingChange False]
         | Pending \<Rightarrow> []))"

text \<open>\<^verbatim>\<open>handleAnalyze\<close> (lines 41-63)\<close>

definition handleAnalyze ::
  "(string \<Rightarrow> FormState \<Rightarrow> AnalysisResult outcome) \<Rightarrow> FormState \<Rightarrow> event list" where
  "handleAnalyze post formData =
     (if \<not> truthy_string (repository_url formData) \<and> \<not> truthy_string (repository_content formData)
      then [OnError (Some ''Please provide either a repository URL or code content to analyze'')]
      else [OnLoadingChange True, AxiosPost ''/api/analyze-repository'' formData] @
        (case post ''/api/analyze-repository'' formData of
           Resolved r \<Rightarrow> [SetFormData r, OnError None, OnLoadingChange False]
         | Rejected err \<Rightarrow>
             [OnError (errorMessage err ''Failed to analyze repository''), OnLoadingChange False]
         | Pending \<Rightarrow> []))"

text \<open>
  The updater of line 51: \<^verbatim>\<open>{...prev, language: response.data.language || '',
  framework: response.data.framework || ''}\<close>. It runs on the state of the form at the
  time of the update.
\<close>

definition analyze_updater :: "AnalysisResult \<Rightarrow> FormState \<Rightarrow> FormState" where
  "analyze_updater r prev =
     prev\<lparr>language := (case js_or (res_language r) (Some []) of Some s \<Rightarrow> s | None \<Rightarrow> []),
          framework := (case js_or (res_framework r) (Some []) of Some s \<Rightarrow> s | None \<Rightarrow> [])\<rparr>"

text \<open>The state of the form once the updates a handler queued have been applied.\<close>

fun apply_form_event :: "FormState \<Rightarrow> event \<Rightarrow> FormState" where
  "apply_form_event prev (SetFormData r) = analyze_updater r prev"
| "apply_form_event prev _ = prev"

definition form_after :: "event list \<Rightarrow> FormState \<Rightarrow> FormState" where
  "form_after evs prev = foldl apply_form_event prev evs"

subsection \<open>What each observer sees\<close>

fun requests :: "event list \<Rightarrow> (string \<times> FormState) list" where
  "requests [] = []"
| "requests (AxiosPost url body # evs) = (url, body) # requests evs"
| "requests (_ # evs) = requests evs"

fun loading_calls :: "event list \<Rightarrow> bool list" where
  "loading_calls [] = []"
| "loading_calls (OnLoadingChange b # evs) = b # loading_calls evs"
| "loading_calls (_ # evs) = loading_calls evs"

fun error_calls :: "event list \<Rightarrow> string option list" where
  "error_calls [] = []"
| "error_calls (OnError m # evs) = m # error_calls evs"
| "error_calls (_ # evs) = error_calls evs"

fun form_updates :: "event list \<Rightarrow> AnalysisResult list" where
  "form_updates [] = []"
| "form_updates (SetFormData r # evs) = r # form_updates evs"
| "form_updates (_ # evs) = form_updates evs"

section \<open>App.jsx\<close>

text \<open>The three state slots of the coordinator (lines 6-8).\<close>

record AppState =
  pipeline :: "PipelineDocument option"
  loading :: bool
  error :: "string option"


text \<open>\<^verbatim>\<open>handlePipelineGenerated\<close> (lines 10-13)\<close>

definition handlePipelineGenerated :: "PipelineDocument \<Rightarrow> AppState \<Rightarrow> AppState" where
  "handlePipelineGenerated pipelineData s = s\<lparr>pipeline := Some pipelineData, error := None\<rparr>"

text \<open>\<^verbatim>\<open>handleError\<close> (lines 15-18)\<close>

definition handleError :: "string option \<Rightarrow> AppState \<Rightarrow> AppState" where
  "handleError msg s = s\<lparr>error := msg, pipeline := None\<rparr>"

text \<open>\<^verbatim>\<open>handleLoadingChange\<close> (lines 20-22)\<close>

definition handleLoadingChange :: "bool \<Rightarrow> AppState \<Rightarrow> AppState" where
  "handleLoadingChange isLoading s = s\<lparr>loading := isLoading\<rparr>"

text \<open>
  The props \<^verbatim>\<open>App\<close> passes to the form (lines 31-35) wire each callback to its handler.
  Requests and updates of the form's own state do not touch the coordinator.
\<close>

fun deliver :: "AppState \<Rightarrow> event \<Rightarrow> AppState" where
  "deliver s (OnPipelineGenerated d) = handlePipelineGenerated d s"
| "deliver s (OnError m) = handleError m s"
| "deliver s (OnLoadingChange b) = handleLoadingChange b s"
| "deliver s (AxiosPost url body) = s"
| "deliver s (SetFormData r) = s"

definition deliver_all :: "event list \<Rightarrow> AppState \<Rightarrow> AppState" where
  "deliver_all evs s = foldl deliver s evs"

section \<open>PipelineVisualizer.jsx\<close>

text \<open>
  The seven SVG literals of \<^verbatim>\<open>stageIcons\<close> (lines 3-42), named by their keys; the path
  data of each is left out.
\<close>

datatype icon =
    Icon_unit_test_backend
  | Icon_unit_test_frontend
  | Icon_integration_test_backend
  | Icon_integration_test_frontend
  | Icon_code_quality
  | Icon_performance_test
  | Icon_security_test

definition stageIcons :: "(string \<times> icon) list" where
  "stageIcons =
     [(''unit_test_backend'', Icon_unit_test_backend),
      (''unit_test_frontend'', Icon_unit_test_frontend),
      (''integration_test_backend'', Icon_integration_test_backend),
      (''integration_test_frontend'', Icon_integration_test_frontend),
      (''code_quality'', Icon_code_quality),
      (''performance_test'', Icon_performance_test),
      (''security_test'', Icon_security_test)]"

text \<open>
  \<^verbatim>\<open>stageIcons\<close> is an object literal, so its prototype is \<^verbatim>\<open>Object.prototype\<close>, and
  \<^verbatim>\<open>stageIcons[key]\<close> is a property read that walks the prototype chain: a key that is
  not an own property of the literal is looked up in \<^verbatim>\<open>Object.prototype\<close>. These are
  the properties of \<^verbatim>\<open>Object.prototype\<close> (ECMAScript, section 20.1.3). Eleven are
  functions and \<^verbatim>\<open>__proto__\<close> reads as \<^verbatim>\<open>Object.prototype\<close> itself: all are truthy.
\<close>

definition Object_prototype_keys :: "string list" where
  "Object_prototype_keys =
     [''constructor'', ''hasOwnProperty'', ''isPrototypeOf'', ''propertyIsEnumerable'',
      ''toLocaleString'', ''toString'', ''valueOf'', ''__proto__'',
      ''__defineGetter__'', ''__defineSetter__'', ''__lookupGetter__'', ''__lookupSetter__'']"

text \<open>
  A value read from \<^verbatim>\<open>stageIcons\<close>: one of its own icons, or the member of
  \<^verbatim>\<open>Object.prototype\<close> with the given name.
\<close>

datatype icon_value = Svg icon | Inherited string

text \<open>\<^verbatim>\<open>stageIcons[key]\<close>, with \<^term>\<open>None\<close> for \<^verbatim>\<open>undefined\<close>.\<close>

definition stageIcons_get :: "string \<Rightarrow> icon_value option" where
  "stageIcons_get key =
     (case map_of stageIcons key of
        Some i \<Rightarrow> Some (Svg i)
      | None \<Rightarrow> if key \<in> set Object_prototype_keys then Some (Inherited key) else None)"

text \<open>
  \<^verbatim>\<open>stageIcons[stage.type] || stageIcons.code_quality\<close> (line 60). Every value
  \<^verbatim>\<open>stageIcons[key]\<close> can have, other than \<^verbatim>\<open>undefined\<close>, is an object or a function and
  so truthy.
\<close>

definition stage_icon :: "string \<Rightarrow> icon_value" where
  "stage_icon ty = (case stageIcons_get ty of Some v \<Rightarrow> v | None \<Rightarrow> Svg Icon_code_quality)"

text \<open>\<^verbatim>\<open>stage.type.replace(/_/g, ' ')\<close> (line 65)\<close>

definition stage_label :: "string \<Rightarrow> string" where
  "stage_label ty = map (\<lambda>c. if c = CHR ''_'' then CHR '' '' else c) ty"

text \<open>
  The React elements the component returns: a tag, its \<^verbatim>\<open>className\<close> and its children.
  The \<^verbatim>\<open>style\<close>, \<^verbatim>\<open>key\<close> and SVG attributes are left out. A child that is \<^verbatim>\<open>null\<close>,
  \<^verbatim>\<open>undefined\<close>, \<^verbatim>\<open>false\<close> or the empty string, which React does not display, is no
  child here.
\<close>

datatype node =
    Element string string "node list"
  | Text string
  | IconNode icon_value
  | ClockIcon

text \<open>A string placed as a child, \<^verbatim>\<open>{s}\<close>: a text, or no child when the string is empty.\<close>

definition text_child :: "string \<Rightarrow> node list" where
  "text_child s = (if s = [] then [] else [Text s])"

definition list_items :: "string list \<Rightarrow> node list" where
  "list_items xs = map (\<lambda>x. Element ''li'' [] (text_child x)) xs"

text \<open>The body of \<^verbatim>\<open>pipeline.stages.map\<close> (lines 57-104).\<close>

definition stage_node :: "Stage \<Rightarrow> node" where
  "stage_node stage =
     Element ''div'' ''pipeline-stage''
       [Element ''div'' ''stage-header''
          [Element ''div'' ''stage-title''
             (IconNode (stage_icon (stage_type stage)) # text_child (stage_name stage)),
           Element ''div'' []
             [Element ''span'' (''stage-type-badge stage-type-'' @ stage_type stage)
                (text_child (stage_label (stage_type stage)))]],
        Element ''div'' ''stage-description'' (text_child (description stage)),
        Element ''div'' ''stage-details''
          [Element ''div'' ''detail-section''
             [Element ''h4'' [] [Text ''Commands to Run:''],
              Element ''ul'' [] (list_items (commands stage))],
           Element ''div'' ''detail-section''
             [Element ''h4'' [] [Text ''Tools & Frameworks:''],
              Element ''ul'' [] (list_items (tools stage))]],
        Element ''div'' []
          [ClockIcon,
           Element ''span'' ''stage-duration''
             (Text ''Estimated Duration: '' # text_child (estimatedDuration stage))]]"

text \<open>
  \<^verbatim>\<open>pipeline.recommendations && pipeline.recommendations.length > 0 && (...)\<close>
  (lines 112-121)
\<close>

definition recommendations_nodes :: "string list option \<Rightarrow> node list" where
  "recommendations_nodes recs =
     (case recs of
        None \<Rightarrow> []
      | Some rs \<Rightarrow>
          if length rs > 0
          then [Element ''div'' ''recommendations''
                  [Element ''h4'' [] [Text ''Recommendations''],
                   Element ''ul'' [] (list_items rs)]]
          else [])"

text \<open>\<^verbatim>\<open>pipeline.summary && (...)\<close> (lines 107-123)\<close>

definition summary_nodes :: "PipelineDocument \<Rightarrow> node list" where
  "summary_nodes p =
     (if truthy (summary p)
      then [Element ''div'' ''summary-section''
              ([Element ''h3'' [] [Text ''Pipeline Summary''],
                Element ''p'' [] (text_child (case summary p of Some s \<Rightarrow> s | None \<Rightarrow> []))]
               @ recommendations_nodes (recommendations p))]
      else [])"

text \<open>
  The component (lines 44-126); \<^term>\<open>None\<close> is \<^verbatim>\<open>return null\<close>. An object is truthy, so
  \<^verbatim>\<open>!pipeline\<close> holds of \<^verbatim>\<open>null\<close> only, and an array is truthy, so \<^verbatim>\<open>!pipeline.stages\<close>
  holds only when there is no array.
\<close>

definition PipelineVisualizer :: "PipelineDocument option \<Rightarrow> node option" where
  "PipelineVisualizer pl =
     (case pl of
        None \<Rightarrow> None
      | Some p \<Rightarrow>
          (case stages p of
             None \<Rightarrow> None
           | Some ss \<Rightarrow>
               Some (Element ''div'' ''pipeline-container''
                 ([Element ''div'' ''card''
                     (Element ''h2'' [] [Text ''Generated Test Pipeline''] # map stage_node ss)]
                  @ summary_nodes p))))"


definition shown_pipeline :: "AppState \<Rightarrow> node option" where
  "shown_pipeline s =
     (if pipeline s \<noteq> None \<and> \<not> loading s then PipelineVisualizer (pipeline s) else None)"

section \<open>Notions used to state the properties\<close>

text \<open>The form passes the check of lines 23 and 42: one of the two inputs is not empty.\<close>

definition provided :: "FormState \<Rightarrow> bool" where
  "provided fd = (truthy_string (repository_url fd) \<or> truthy_string (repository_content fd))"

fun rejected :: "'d outcome \<Rightarrow> bool" where
  "rejected (Rejected err) = True"
| "rejected _ = False"

text \<open>
  A generate or analyze call fails: the form is turned down by the local check, or the
  request is sent and rejected.
\<close>

definition generate_fails ::
  "(string \<Rightarrow> FormState \<Rightarrow> PipelineDocument outcome) \<Rightarrow> FormState \<Rightarrow> bool" where
  "generate_fails post fd = (if provided fd then rejected (post ''/api/generate-pipeline'' fd) else True)"

definition analyze_fails ::
  "(string \<Rightarrow> FormState \<Rightarrow> AnalysisResult outcome) \<Rightarrow> FormState \<Rightarrow> bool" where
  "analyze_fails post fd = (if provided fd then rejected (post ''/api/analyze-repository'' fd) else True)"

text \<open>Space, tab, line feed and carriage return only.\<close>

definition whitespace_only :: "string \<Rightarrow> bool" where
  "whitespace_only s = list_all (\<lambda>c. c \<in> set [CHR '' '', CHR 0x09, CHR 0x0A, CHR 0x0D]) s"

subsection \<open>Concrete inputs\<close>

definition url_form :: FormState where
  "url_form =
     \<lparr>repository_url = ''https://github.com/user/repo'', repository_content = [],
      language = [], framework = []\<rparr>"

definition blank_form :: FormState where
  "blank_form =
     \<lparr>repository_url = '' '', repository_content = [], language = [], framework = []\<rparr>"

definition python_form :: FormState where
  "python_form =
     \<lparr>repository_url = [], repository_content = ''def hello(): pass'',
      language = ''Python'', framework = ''Django''\<rparr>"

definition network_error :: AxiosError where
  "network_error = \<lparr>err_response = None, err_message = Some ''Network Error''\<rparr>"

definition not_found_error :: AxiosError where
  "not_found_error =
     \<lparr>err_response = Some \<lparr>resp_data = Some \<lparr>detail = Some ''Not Found''\<rparr>\<rparr>,
      err_message = None\<rparr>"

definition service_error :: AxiosError where
  "service_error =
     \<lparr>err_response = Some \<lparr>resp_data = Some \<lparr>detail = Some ''AI service error''\<rparr>\<rparr>,
      err_message = Some ''Request failed with status code 500''\<rparr>"

definition bare_error :: AxiosError where
  "bare_error = \<lparr>err_response = Some \<lparr>resp_data = None\<rparr>, err_message = Some []\<rparr>"

definition rejecting :: "AxiosError \<Rightarrow> string \<Rightarrow> FormState \<Rightarrow> 'd outcome" where
  "rejecting err url body = Rejected err"

definition resolving :: "'d \<Rightarrow> string \<Rightarrow> FormState \<Rightarrow> 'd outcome" where
  "resolving d url body = Resolved d"

definition custom_stage :: Stage where
  "custom_stage =
     \<lparr>stage_name = ''Custom Stage'', stage_type = ''custom_type'',
      description = ''A custom stage type'', commands = [''echo hello''],
      tools = [''CustomTool''], estimatedDuration = ''2m''\<rparr>"

definition constructor_stage :: Stage where
  "constructor_stage =
     \<lparr>stage_name = ''Constructor Tests'', stage_type = ''constructor'',
      description = ''Tests of the constructors'', commands = [''npm test''],
      tools = [''Jest''], estimatedDuration = ''1m''\<rparr>"

definition custom_pipeline :: PipelineDocument where
  "custom_pipeline = \<lparr>stages = Some [custom_stage], summary = None, recommendations = None\<rparr>"

definition empty_pipeline :: PipelineDocument where
  "empty_pipeline = \<lparr>stages = Some [], summary = None, recommendations = None\<rparr>"

definition no_language :: AnalysisResult where
  "no_language = \<lparr>res_language = None, res_framework = Some []\<rparr>"

definition showing_state :: AppState where
  "showing_state = \<lparr>pipeline = Some custom_pipeline, loading = False, error = None\<rparr>"

section \<open>Properties of the intake form\<close>

subsection \<open>Which calls send a request\<close>

lemma requests_handleSubmit:
  "requests (handleSubmit post fd) =
     (if provided fd then [(''/api/generate-pipeline'', fd)] else [])"
  by (simp add: handleSubmit_def provided_def split: outcome.split)

lemma requests_handleAnalyze:
  "requests (handleAnalyze post fd) =
     (if provided fd then [(''/api/analyze-repository'', fd)] else [])"
  by (simp add: handleAnalyze_def provided_def split: outcome.split)

text \<open>
  C1, as the code has it. When \<^verbatim>\<open>repository_url\<close> and \<^verbatim>\<open>repository_content\<close> are both the
  empty string, \<^verbatim>\<open>handleSubmit\<close> does nothing but call the error observer with
  'Please provide either a repository URL or code content', \<^verbatim>\<open>handleAnalyze\<close> does
  nothing but call it with 'Please provide either a repository URL or code content to
  analyze', and neither sends a request, whatever the network would have answered. In
  every other case, a value made of whitespace included, the request is sent.
\<close>

theorem empty_form_rejected_locally:
  "(repository_url fd = [] \<and> repository_content fd = [] \<longrightarrow>
      handleSubmit post fd =
        [OnError (Some ''Please provide either a repository URL or code content'')]
      \<and> handleAnalyze post' fd =
        [OnError (Some ''Please provide either a repository URL or code content to analyze'')])
   \<and> (requests (handleSubmit post fd) = []) =
       (repository_url fd = [] \<and> repository_content fd = [])
   \<and> (requests (handleAnalyze post' fd) = []) =
       (repository_url fd = [] \<and> repository_content fd = [])"
  by (simp add: requests_handleSubmit requests_handleAnalyze provided_def truthy_string_def
      handleSubmit_def handleAnalyze_def)

theorem empty_form_rejected_locally_witness:
  "handleSubmit (rejecting network_error) initial_formData =
           [OnError (Some ''Please provide either a repository URL or code content'')]
   \<and> handleAnalyze (resolving no_language) initial_formData =
           [OnError (Some ''Please provide either a repository URL or code content to analyze'')]
   \<and> requests (handleSubmit (rejecting network_error) initial_formData) = []
   \<and> requests (handleAnalyze (resolving no_language) initial_formData) = []"
  using empty_form_rejected_locally
          [of initial_formData "rejecting network_error" "resolving no_language"]
  by (simp add: initial_formData_def)

text \<open>
  C1 as stated fails on whitespace: the check of lines 23 and 42 is \<^verbatim>\<open>!formData.repository_url\<close>,
  and a string holding one space is truthy. With the URL a single space and no content,
  both handlers send their request, and the error the observer gets is the network's.
\<close>

theorem whitespace_form_counterexample:
  "whitespace_only (repository_url blank_form)
   \<and> whitespace_only (repository_content blank_form)
   \<and> requests (handleSubmit (rejecting network_error) blank_form) =
        [(''/api/generate-pipeline'', blank_form)]
   \<and> error_calls (handleSubmit (rejecting network_error) blank_form) = [Some ''Network Error'']
   \<and> requests (handleAnalyze (rejecting network_error) blank_form) =
        [(''/api/analyze-repository'', blank_form)]
   \<and> error_calls (handleAnalyze (rejecting network_error) blank_form) = [Some ''Network Error'']"
  by (simp add: whitespace_only_def blank_form_def handleSubmit_def handleAnalyze_def
      truthy_string_def rejecting_def errorMessage_def err_detail_def network_error_def js_or_def)

subsection \<open>The shape of each path through the handlers\<close>

lemma errorMessage_cases:
  "errorMessage err fallback =
     (if truthy (err_detail err) then err_detail err
      else if truthy (err_message err) then err_message err
      else Some fallback)"
  by (simp add: errorMessage_def js_or_def)

lemma errorMessage_nonempty:
  "fallback \<noteq> [] \<Longrightarrow> \<exists>m. errorMessage err fallback = Some m \<and> m \<noteq> []"
  by (cases "err_detail err"; cases "err_message err")
     (auto simp: errorMessage_def js_or_def truthy_string_def)

lemma handleSubmit_rejected:
  "provided fd \<Longrightarrow> post ''/api/generate-pipeline'' fd = Rejected err \<Longrightarrow>
   handleSubmit post fd =
     [OnLoadingChange True, AxiosPost ''/api/generate-pipeline'' fd,
      OnError (errorMessage err ''Failed to generate pipeline''), OnLoadingChange False]"
  by (simp add: handleSubmit_def provided_def)

lemma handleAnalyze_rejected:
  "provided fd \<Longrightarrow> post ''/api/analyze-repository'' fd = Rejected err \<Longrightarrow>
   handleAnalyze post fd =
     [OnLoadingChange True, AxiosPost ''/api/analyze-repository'' fd,
      OnError (errorMessage err ''Failed to analyze repository''), OnLoadingChange False]"
  by (simp add: handleAnalyze_def provided_def)

lemma handleSubmit_not_provided:
  "\<not> provided fd \<Longrightarrow>
   handleSubmit post fd =
     [OnError (Some ''Please provide either a repository URL or code content'')]"
  by (simp add: handleSubmit_def provided_def)

lemma handleAnalyze_not_provided:
  "\<not> provided fd \<Longrightarrow>
   handleAnalyze post fd =
     [OnError (Some ''Please provide either a repository URL or code content to analyze'')]"
  by (simp add: handleAnalyze_def provided_def)


lemma handleAnalyze_resolved:
  "provided fd \<Longrightarrow> post ''/api/analyze-repository'' fd = Resolved r \<Longrightarrow>
   handleAnalyze post fd =
     [OnLoadingChange True, AxiosPost ''/api/analyze-repository'' fd,
      SetFormData r, OnError None, OnLoadingChange False]"
  by (simp add: handleAnalyze_def provided_def)

lemma rejectedE: "rejected out \<Longrightarrow> \<exists>err. out = Rejected err"
  by (cases out) simp_all

lemma generate_fails_cases:
  "generate_fails post fd \<Longrightarrow>
   \<not> provided fd \<or> (\<exists>err. provided fd \<and> post ''/api/generate-pipeline'' fd = Rejected err)"
  using rejectedE by (auto simp: generate_fails_def split: if_splits)

lemma analyze_fails_cases:
  "analyze_fails post fd \<Longrightarrow>
   \<not> provided fd \<or> (\<exists>err. provided fd \<and> post ''/api/analyze-repository'' fd = Rejected err)"
  using rejectedE by (auto simp: analyze_fails_def split: if_splits)

lemma provided_url_form: "provided url_form"
  by (simp add: provided_def url_form_def truthy_string_def)

lemma provided_python_form: "provided python_form"
  by (simp add: provided_def python_form_def truthy_string_def)

lemma not_provided_initial: "\<not> provided initial_formData"
  by (simp add: provided_def initial_formData_def truthy_string_def)

subsection \<open>Loading and error notifications of a failed call\<close>

text \<open>
  C3, as the code has it. A generate or analyze call whose request is rejected turns
  loading on, sends the request, calls the error observer once with a non-empty string
  and turns loading off: the loading observer sees exactly true, then false. A call turned
  down by the local check returns before \<^verbatim>\<open>onLoadingChange(true)\<close>: it calls the error
  observer once with a non-empty string and does not notify the loading observer at all.
\<close>

theorem failed_call_notifications:
  "(generate_fails post fd \<longrightarrow>
      (\<exists>m. m \<noteq> [] \<and>
         handleSubmit post fd =
           (if provided fd
            then [OnLoadingChange True, AxiosPost ''/api/generate-pipeline'' fd,
                  OnError (Some m), OnLoadingChange False]
            else [OnError (Some m)]) \<and>
         error_calls (handleSubmit post fd) = [Some m])
      \<and> loading_calls (handleSubmit post fd) = (if provided fd then [True, False] else []))
   \<and> (analyze_fails post' fd' \<longrightarrow>
      (\<exists>m. m \<noteq> [] \<and>
         handleAnalyze post' fd' =
           (if provided fd'
            then [OnLoadingChange True, AxiosPost ''/api/analyze-repository'' fd',
                  OnError (Some m), OnLoadingChange False]
            else [OnError (Some m)]) \<and>
         error_calls (handleAnalyze post' fd') = [Some m])
      \<and> loading_calls (handleAnalyze post' fd') = (if provided fd' then [True, False] else []))"
proof (intro conjI impI)
  assume "generate_fails post fd"
  then consider "\<not> provided fd"
    | err where "provided fd" "post ''/api/generate-pipeline'' fd = Rejected err"
    using generate_fails_cases by blast
  then show "\<exists>m. m \<noteq> [] \<and>
         handleSubmit post fd =
           (if provided fd
            then [OnLoadingChange True, AxiosPost ''/api/generate-pipeline'' fd,
                  OnError (Some m), OnLoadingChange False]
            else [OnError (Some m)]) \<and>
         error_calls (handleSubmit post fd) = [Some m]"
  proof cases
    case 1
    then show ?thesis by (simp add: handleSubmit_not_provided)
  next
    case 2
    from errorMessage_nonempty [of "''Failed to generate pipeline''" err]
    obtain m where "errorMessage err ''Failed to generate pipeline'' = Some m" "m \<noteq> []"
      by auto
    with 2 show ?thesis by (simp add: handleSubmit_rejected)
  qed
  from \<open>generate_fails post fd\<close> consider "\<not> provided fd"
    | err where "provided fd" "post ''/api/generate-pipeline'' fd = Rejected err"
    using generate_fails_cases by blast
  then show "loading_calls (handleSubmit post fd) = (if provided fd then [True, False] else [])"
    by cases (simp_all add: handleSubmit_not_provided handleSubmit_rejected)
next
  assume "analyze_fails post' fd'"
  then consider "\<not> provided fd'"
    | err where "provided fd'" "post' ''/api/analyze-repository'' fd' = Rejected err"
    using analyze_fails_cases by blast
  then show "\<exists>m. m \<noteq> [] \<and>
         handleAnalyze post' fd' =
           (if provided fd'
            then [OnLoadingChange True, AxiosPost ''/api/analyze-repository'' fd',
                  OnError (Some m), OnLoadingChange False]
            else [OnError (Some m)]) \<and>
         error_calls (handleAnalyze post' fd') = [Some m]"
  proof cases
    case 1
    then show ?thesis by (simp add: handleAnalyze_not_provided)
  next
    case 2
    from errorMessage_nonempty [of "''Failed to analyze repository''" err]
    obtain m where "errorMessage err ''Failed to analyze repository'' = Some m" "m \<noteq> []"
      by auto
    with 2 show ?thesis by (simp add: handleAnalyze_rejected)
  qed
  from \<open>analyze_fails post' fd'\<close> consider "\<not> provided fd'"
    | err where "provided fd'" "post' ''/api/analyze-repository'' fd' = Rejected err"
    using analyze_fails_cases by blast
  then show "loading_calls (handleAnalyze post' fd') = (if provided fd' then [True, False] else [])"
    by cases (simp_all add: handleAnalyze_not_provided handleAnalyze_rejected)
qed

theorem failed_call_notifications_witness:
  "generate_fails (rejecting network_error) url_form
   \<and> loading_calls (handleSubmit (rejecting network_error) url_form) = [True, False]
   \<and> error_calls (handleSubmit (rejecting network_error) url_form) = [Some ''Network Error'']
   \<and> analyze_fails (rejecting not_found_error) initial_formData
   \<and> loading_calls (handleAnalyze (rejecting not_found_error) initial_formData) = []
   \<and> error_calls (handleAnalyze (rejecting not_found_error) initial_formData) =
        [Some ''Please provide either a repository URL or code content to analyze'']"
proof -
  have g: "generate_fails (rejecting network_error) url_form"
    by (simp add: generate_fails_def rejecting_def)
  have a: "analyze_fails (rejecting not_found_error) initial_formData"
    by (simp add: analyze_fails_def not_provided_initial)
  have e1: "error_calls (handleSubmit (rejecting network_error) url_form) = [Some ''Network Error'']"
    by (simp add: handleSubmit_rejected [OF provided_url_form, of _ network_error]
        rejecting_def errorMessage_def err_detail_def network_error_def js_or_def truthy_string_def)
  have e2: "error_calls (handleAnalyze (rejecting not_found_error) initial_formData) =
        [Some ''Please provide either a repository URL or code content to analyze'']"
    by (simp add: handleAnalyze_not_provided not_provided_initial)
  from failed_call_notifications
         [of "rejecting network_error" url_form "rejecting not_found_error" initial_formData]
       g a e1 e2
  show ?thesis by (simp add: provided_url_form not_provided_initial)
qed

text \<open>
  C3 as stated fails on the local check: submitting the empty form is a failed call, and
  the loading observer is not notified, so its sequence is empty and not true, false.
\<close>

theorem validation_failure_counterexample:
  "generate_fails (rejecting network_error) initial_formData
   \<and> loading_calls (handleSubmit (rejecting network_error) initial_formData) = []
   \<and> loading_calls (handleSubmit (rejecting network_error) initial_formData) \<noteq> [True, False]
   \<and> analyze_fails (rejecting network_error) initial_formData
   \<and> loading_calls (handleAnalyze (rejecting network_error) initial_formData) = []"
  by (simp add: generate_fails_def analyze_fails_def not_provided_initial
      handleSubmit_not_provided handleAnalyze_not_provided)

subsection \<open>The message given to the error observer\<close>

lemma err_detail_Some:
  "err_response err = Some r \<Longrightarrow> resp_data r = Some b \<Longrightarrow> detail b = Some d \<Longrightarrow>
   err_detail err = Some d"
  by (simp add: err_detail_def)

lemma err_detail_falsy:
  "(\<forall>r b d. err_response err = Some r \<longrightarrow> resp_data r = Some b \<longrightarrow> detail b = Some d \<longrightarrow> d = []) \<Longrightarrow>
   \<not> truthy (err_detail err)"
proof (cases "err_detail err")
  case None
  then show ?thesis by simp
next
  case (Some d)
  then obtain r b where "err_response err = Some r" "resp_data r = Some b" "detail b = Some d"
    by (auto simp: err_detail_def split: option.splits)
  moreover assume "\<forall>r b d. err_response err = Some r \<longrightarrow> resp_data r = Some b \<longrightarrow>
    detail b = Some d \<longrightarrow> d = []"
  ultimately have "d = []" by blast
  with Some show ?thesis by (simp add: truthy_string_def)
qed

lemma errorMessage_detail:
  "err_response err = Some r \<Longrightarrow> resp_data r = Some b \<Longrightarrow> detail b = Some d \<Longrightarrow> d \<noteq> [] \<Longrightarrow>
   errorMessage err fallback = Some d"
  by (simp add: errorMessage_cases err_detail_Some truthy_string_def)

lemma errorMessage_message:
  "(\<forall>r b d. err_response err = Some r \<longrightarrow> resp_data r = Some b \<longrightarrow> detail b = Some d \<longrightarrow> d = []) \<Longrightarrow>
   err_message err = Some m \<Longrightarrow> m \<noteq> [] \<Longrightarrow>
   errorMessage err fallback = Some m"
  using err_detail_falsy [of err] by (simp add: errorMessage_cases truthy_string_def)

lemma errorMessage_fallback:
  "(\<forall>r b d. err_response err = Some r \<longrightarrow> resp_data r = Some b \<longrightarrow> detail b = Some d \<longrightarrow> d = []) \<Longrightarrow>
   (\<forall>m. err_message err = Some m \<longrightarrow> m = []) \<Longrightarrow>
   errorMessage err fallback = Some fallback"
  using err_detail_falsy [of err]
  by (cases "err_message err") (simp_all add: errorMessage_cases truthy_string_def)

text \<open>
  C4. When a generate or analyze request is rejected with \<open>err\<close>, the error observer is
  called once. If \<^verbatim>\<open>err.response\<close>, its \<^verbatim>\<open>data\<close> and the \<^verbatim>\<open>detail\<close> of that are all there
  and the detail is not empty, the observer gets that detail, whatever \<^verbatim>\<open>err.message\<close>
  is. If there is no such detail and \<^verbatim>\<open>err.message\<close> is there and not empty, it gets that
  message. If there is neither, it gets 'Failed to generate pipeline' for generate and
  'Failed to analyze repository' for analyze. A rejection carrying only the detail
  'Not Found' gives exactly 'Not Found'.
\<close>

theorem error_message_resolution:
  "(provided fd \<and> post ''/api/generate-pipeline'' fd = Rejected err \<longrightarrow>
      (\<forall>r b d. err_response err = Some r \<and> resp_data r = Some b \<and> detail b = Some d \<and> d \<noteq> [] \<longrightarrow>
         error_calls (handleSubmit post fd) = [Some d])
      \<and> (\<forall>m. (\<forall>r b d. err_response err = Some r \<longrightarrow> resp_data r = Some b \<longrightarrow>
                  detail b = Some d \<longrightarrow> d = [])
             \<and> err_message err = Some m \<and> m \<noteq> [] \<longrightarrow>
         error_calls (handleSubmit post fd) = [Some m])
      \<and> ((\<forall>r b d. err_response err = Some r \<longrightarrow> resp_data r = Some b \<longrightarrow>
                  detail b = Some d \<longrightarrow> d = [])
           \<and> (\<forall>m. err_message err = Some m \<longrightarrow> m = []) \<longrightarrow>
         error_calls (handleSubmit post fd) = [Some ''Failed to generate pipeline'']))
   \<and> (provided fd' \<and> post' ''/api/analyze-repository'' fd' = Rejected err' \<longrightarrow>
      (\<forall>r b d. err_response err' = Some r \<and> resp_data r = Some b \<and> detail b = Some d \<and> d \<noteq> [] \<longrightarrow>
         error_calls (handleAnalyze post' fd') = [Some d])
      \<and> (\<forall>m. (\<forall>r b d. err_response err' = Some r \<longrightarrow> resp_data r = Some b \<longrightarrow>
                  detail b = Some d \<longrightarrow> d = [])
             \<and> err_message err' = Some m \<and> m \<noteq> [] \<longrightarrow>
         error_calls (handleAnalyze post' fd') = [Some m])
      \<and> ((\<forall>r b d. err_response err' = Some r \<longrightarrow> resp_data r = Some b \<longrightarrow>
                  detail b = Some d \<longrightarrow> d = [])
           \<and> (\<forall>m. err_message err' = Some m \<longrightarrow> m = []) \<longrightarrow>
         error_calls (handleAnalyze post' fd') = [Some ''Failed to analyze repository'']))
   \<and> (provided fd' \<and> post' ''/api/analyze-repository'' fd' =
         Rejected \<lparr>err_response = Some \<lparr>resp_data = Some \<lparr>detail = Some ''Not Found''\<rparr>\<rparr>,
                   err_message = None\<rparr> \<longrightarrow>
      error_calls (handleAnalyze post' fd') = [Some ''Not Found''])"
proof (intro conjI impI allI)
  fix r b d
  assume "provided fd \<and> post ''/api/generate-pipeline'' fd = Rejected err"
    and "err_response err = Some r \<and> resp_data r = Some b \<and> detail b = Some d \<and> d \<noteq> []"
  then show "error_calls (handleSubmit post fd) = [Some d]"
    by (simp add: handleSubmit_rejected errorMessage_detail)
next
  fix m
  assume "provided fd \<and> post ''/api/generate-pipeline'' fd = Rejected err"
    and "(\<forall>r b d. err_response err = Some r \<longrightarrow> resp_data r = Some b \<longrightarrow>
                  detail b = Some d \<longrightarrow> d = [])
         \<and> err_message err = Some m \<and> m \<noteq> []"
  then show "error_calls (handleSubmit post fd) = [Some m]"
    by (simp add: handleSubmit_rejected errorMessage_message)
next
  assume "provided fd \<and> post ''/api/generate-pipeline'' fd = Rejected err"
    and "(\<forall>r b d. err_response err = Some r \<longrightarrow> resp_data r = Some b \<longrightarrow>
                  detail b = Some d \<longrightarrow> d = [])
         \<and> (\<forall>m. err_message err = Some m \<longrightarrow> m = [])"
  then show "error_calls (handleSubmit post fd) = [Some ''Failed to generate pipeline'']"
    by (simp add: handleSubmit_rejected errorMessage_fallback)
next
  fix r b d
  assume "provided fd' \<and> post' ''/api/analyze-repository'' fd' = Rejected err'"
    and "err_response err' = Some r \<and> resp_data r = Some b \<and> detail b = Some d \<and> d \<noteq> []"
  then show "error_calls (handleAnalyze post' fd') = [Some d]"
    by (simp add: handleAnalyze_rejected errorMessage_detail)
next
  fix m
  assume "provided fd' \<and> post' ''/api/analyze-repository'' fd' = Rejected err'"
    and "(\<forall>r b d. err_response err' = Some r \<longrightarrow> resp_data r = Some b \<longrightarrow>
                  detail b = Some d \<longrightarrow> d = [])
         \<and> err_message err' = Some m \<and> m \<noteq> []"
  then show "error_calls (handleAnalyze post' fd') = [Some m]"
    by (simp add: handleAnalyze_rejected errorMessage_message)
next
  assume "provided fd' \<and> post' ''/api/analyze-repository'' fd' = Rejected err'"
    and "(\<forall>r b d. err_response err' = Some r \<longrightarrow> resp_data r = Some b \<longrightarrow>
                  detail b = Some d \<longrightarrow> d = [])
         \<and> (\<forall>m. err_message err' = Some m \<longrightarrow> m = [])"
  then show "error_calls (handleAnalyze post' fd') = [Some ''Failed to analyze repository'']"
    by (simp add: handleAnalyze_rejected errorMessage_fallback)
next
  assume "provided fd' \<and> post' ''/api/analyze-repository'' fd' =
         Rejected \<lparr>err_response = Some \<lparr>resp_data = Some \<lparr>detail = Some ''Not Found''\<rparr>\<rparr>,
                   err_message = None\<rparr>"
  then show "error_calls (handleAnalyze post' fd') = [Some ''Not Found'']"
    by (simp add: handleAnalyze_rejected errorMessage_detail)
qed

theorem error_message_resolution_witness:
  "error_calls (handleSubmit (rejecting service_error) url_form) = [Some ''AI service error'']
   \<and> error_calls (handleSubmit (rejecting network_error) url_form) = [Some ''Network Error'']
   \<and> error_calls (handleSubmit (rejecting bare_error) url_form) =
       [Some ''Failed to generate pipeline'']
   \<and> error_calls (handleAnalyze (rejecting service_error) python_form) = [Some ''AI service error'']
   \<and> error_calls (handleAnalyze (rejecting network_error) python_form) = [Some ''Network Error'']
   \<and> error_calls (handleAnalyze (rejecting bare_error) python_form) =
       [Some ''Failed to analyze repository'']
   \<and> error_calls (handleAnalyze (rejecting not_found_error) python_form) = [Some ''Not Found'']"
proof -
  note p = provided_url_form provided_python_form
  from error_message_resolution
         [of url_form "rejecting service_error" service_error
             python_form "rejecting service_error" service_error] p
  have a: "error_calls (handleSubmit (rejecting service_error) url_form) = [Some ''AI service error'']
      \<and> error_calls (handleAnalyze (rejecting service_error) python_form) = [Some ''AI service error'']"
    by (simp add: rejecting_def service_error_def)
  from error_message_resolution
         [of url_form "rejecting network_error" network_error
             python_form "rejecting network_error" network_error] p
  have b: "error_calls (handleSubmit (rejecting network_error) url_form) = [Some ''Network Error'']
      \<and> error_calls (handleAnalyze (rejecting network_error) python_form) = [Some ''Network Error'']"
    by (simp add: rejecting_def network_error_def)
  from error_message_resolution
         [of url_form "rejecting bare_error" bare_error
             python_form "rejecting bare_error" bare_error] p
  have c: "error_calls (handleSubmit (rejecting bare_error) url_form) =
         [Some ''Failed to generate pipeline'']
      \<and> error_calls (handleAnalyze (rejecting bare_error) python_form) =
         [Some ''Failed to analyze repository'']"
    by (simp add: rejecting_def bare_error_def)
  from error_message_resolution
         [of url_form "rejecting not_found_error" not_found_error
             python_form "rejecting not_found_error" not_found_error] p
  have d: "error_calls (handleAnalyze (rejecting not_found_error) python_form) = [Some ''Not Found'']"
    by (simp add: rejecting_def not_found_error_def)
  from a b c d show ?thesis by simp
qed

subsection \<open>What analyze does to the form\<close>

lemma form_after_handleAnalyze_resolved:
  "provided fd \<Longrightarrow> post ''/api/analyze-repository'' fd = Resolved r \<Longrightarrow>
   form_after (handleAnalyze post fd) prev = analyze_updater r prev"
  by (simp add: handleAnalyze_resolved form_after_def)

lemma analyze_clears_both:
  "provided fd \<Longrightarrow> post ''/api/analyze-repository'' fd = Resolved r \<Longrightarrow>
   \<not> truthy (res_language r) \<Longrightarrow> \<not> truthy (res_framework r) \<Longrightarrow>
   language (form_after (handleAnalyze post fd) prev) = []
   \<and> framework (form_after (handleAnalyze post fd) prev) = []"
  by (simp add: form_after_handleAnalyze_resolved analyze_updater_def js_or_def)

text \<open>
  C7. A successful analyze leaves \<^verbatim>\<open>repository_url\<close> and \<^verbatim>\<open>repository_content\<close> as they
  were: the new state of the form is the previous one with \<^verbatim>\<open>language\<close> and \<^verbatim>\<open>framework\<close>
  overwritten. A failed analyze, turned down locally or rejected, queues no update of the
  form and leaves every field as it was.
\<close>

theorem analyze_frame:
  "(provided fd \<and> post ''/api/analyze-repository'' fd = Resolved r \<longrightarrow>
      repository_url (form_after (handleAnalyze post fd) prev) = repository_url prev
      \<and> repository_content (form_after (handleAnalyze post fd) prev) = repository_content prev
      \<and> form_after (handleAnalyze post fd) prev =
          prev\<lparr>language := language (form_after (handleAnalyze post fd) prev),
               framework := framework (form_after (handleAnalyze post fd) prev)\<rparr>)
   \<and> (analyze_fails post fd \<longrightarrow>
      form_updates (handleAnalyze post fd) = []
      \<and> form_after (handleAnalyze post fd) prev = prev)"
proof (intro conjI impI)
  assume "analyze_fails post fd"
  then consider "\<not> provided fd" | err where "provided fd" "post ''/api/analyze-repository'' fd = Rejected err"
    using analyze_fails_cases by blast
  then show "form_updates (handleAnalyze post fd) = []"
    by cases (simp_all add: handleAnalyze_not_provided handleAnalyze_rejected)
  from \<open>analyze_fails post fd\<close>
  consider "\<not> provided fd" | err where "provided fd" "post ''/api/analyze-repository'' fd = Rejected err"
    using analyze_fails_cases by blast
  then show "form_after (handleAnalyze post fd) prev = prev"
    by cases (simp_all add: handleAnalyze_not_provided handleAnalyze_rejected form_after_def)
qed (simp_all add: form_after_handleAnalyze_resolved analyze_updater_def)

theorem analyze_frame_witness:
  "form_after (handleAnalyze (resolving no_language) python_form) python_form =
     python_form\<lparr>language := [], framework := []\<rparr>
   \<and> repository_content (form_after (handleAnalyze (resolving no_language) python_form) python_form)
     = ''def hello(): pass''
   \<and> form_after (handleAnalyze (rejecting not_found_error) python_form) python_form = python_form"
proof -
  have f: "analyze_fails (rejecting not_found_error) python_form"
    by (simp add: analyze_fails_def rejecting_def)
  have r: "resolving no_language ''/api/analyze-repository'' python_form = Resolved no_language"
    by (simp add: resolving_def)
  have t: "\<not> truthy (res_language no_language)" "\<not> truthy (res_framework no_language)"
    by (simp_all add: no_language_def truthy_string_def)
  have c: "repository_content python_form = ''def hello(): pass''"
    by (simp add: python_form_def)
  from analyze_clears_both [of python_form "resolving no_language" no_language python_form]
       t
       analyze_frame [of python_form "resolving no_language" no_language python_form]
       analyze_frame [of python_form "rejecting not_found_error" no_language python_form]
       provided_python_form r f c
  show ?thesis by simp
qed

text \<open>
  C10. When a successful analyze response has no \<^verbatim>\<open>language\<close>, or an empty one, the
  form's \<^verbatim>\<open>language\<close> becomes the empty string whatever it held before; likewise for
  \<^verbatim>\<open>framework\<close>.
\<close>

theorem analyze_clears_missing_fields:
  "(provided fd \<and> post ''/api/analyze-repository'' fd = Resolved r \<and> \<not> truthy (res_language r) \<longrightarrow>
      language (form_after (handleAnalyze post fd) prev) = [])
   \<and> (provided fd \<and> post ''/api/analyze-repository'' fd = Resolved r \<and> \<not> truthy (res_framework r) \<longrightarrow>
      framework (form_after (handleAnalyze post fd) prev) = [])"
  by (simp add: form_after_handleAnalyze_resolved analyze_updater_def js_or_def)

theorem analyze_clears_missing_fields_witness:
  "language python_form = ''Python'' \<and> framework python_form = ''Django''
   \<and> language (form_after (handleAnalyze (resolving no_language) python_form) python_form) = []
   \<and> framework (form_after (handleAnalyze (resolving no_language) python_form) python_form) = []"
proof -
  have r: "resolving no_language ''/api/analyze-repository'' python_form = Resolved no_language"
    by (simp add: resolving_def)
  have t: "\<not> truthy (res_language no_language)" "\<not> truthy (res_framework no_language)"
    by (simp_all add: no_language_def truthy_string_def)
  have u: "language python_form = ''Python''" "framework python_form = ''Django''"
    by (simp_all add: python_form_def)
  from analyze_clears_missing_fields
         [of python_form "resolving no_language" no_language python_form]
       provided_python_form r t u
  show ?thesis by simp
qed

section \<open>Properties of the coordinator\<close>

lemma deliver_all_rejected_trace:
  "deliver_all [OnLoadingChange True, AxiosPost url fd, OnError m, OnLoadingChange False] s =
     s\<lparr>pipeline := None, loading := False, error := m\<rparr>"
  by (simp add: deliver_all_def handleError_def handleLoadingChange_def)

lemma deliver_all_error:
  "deliver_all [OnError m] s = s\<lparr>pipeline := None, error := m\<rparr>"
  by (simp add: deliver_all_def handleError_def)




lemma pipeline_after_failed_generate:
  assumes "generate_fails gen fd"
  shows "pipeline (deliver_all (handleSubmit gen fd) s) = None
         \<and> truthy (error (deliver_all (handleSubmit gen fd) s))"
proof -
  from assms consider "\<not> provided fd"
    | err where "provided fd" "gen ''/api/generate-pipeline'' fd = Rejected err"
    using rejectedE by (auto simp: generate_fails_def split: if_splits)
  then show ?thesis
  proof cases
    case 1
    then show ?thesis
      by (simp add: handleSubmit_not_provided deliver_all_error truthy_string_def)
  next
    case 2
    then show ?thesis
      using errorMessage_nonempty [of "''Failed to generate pipeline''" err]
      by (auto simp: handleSubmit_rejected deliver_all_rejected_trace truthy_string_def)
  qed
qed




text \<open>
  C9. In a coordinator state holding a pipeline, a generate or analyze call with both
  \<^verbatim>\<open>repository_url\<close> and \<^verbatim>\<open>repository_content\<close> empty sends no request, calls the error
  observer once with the validation message, and leaves the pipeline slot \<^verbatim>\<open>null\<close>, so
  that no pipeline is displayed any more.
\<close>

theorem validation_error_clears_pipeline:
  assumes "pipeline s \<noteq> None"
    and "repository_url fd = []" and "repository_content fd = []"
  shows "requests (handleSubmit post fd) = []
         \<and> error_calls (handleSubmit post fd) =
             [Some ''Please provide either a repository URL or code content'']
         \<and> pipeline (deliver_all (handleSubmit post fd) s) = None
         \<and> shown_pipeline (deliver_all (handleSubmit post fd) s) = None
         \<and> requests (handleAnalyze post' fd) = []
         \<and> error_calls (handleAnalyze post' fd) =
             [Some ''Please provide either a repository URL or code content to analyze'']
         \<and> pipeline (deliver_all (handleAnalyze post' fd) s) = None
         \<and> shown_pipeline (deliver_all (handleAnalyze post' fd) s) = None"
proof -
  from assms have n: "\<not> provided fd"
    by (simp add: provided_def truthy_string_def)
  then show ?thesis
    by (simp add: handleSubmit_not_provided handleAnalyze_not_provided deliver_all_error
        shown_pipeline_def)
qed

theorem validation_error_clears_pipeline_witness:
  "pipeline showing_state = Some custom_pipeline
   \<and> shown_pipeline showing_state \<noteq> None
   \<and> requests (handleSubmit (resolving custom_pipeline) initial_formData) = []
   \<and> pipeline (deliver_all (handleSubmit (resolving custom_pipeline) initial_formData) showing_state) = None
   \<and> shown_pipeline (deliver_all (handleSubmit (resolving custom_pipeline) initial_formData) showing_state) = None
   \<and> requests (handleAnalyze (resolving no_language) initial_formData) = []
   \<and> pipeline (deliver_all (handleAnalyze (resolving no_language) initial_formData) showing_state) = None"
proof -
  have p: "pipeline showing_state = Some custom_pipeline" "pipeline showing_state \<noteq> None"
    by (simp_all add: showing_state_def)
  have v: "shown_pipeline showing_state \<noteq> None"
    by (simp add: shown_pipeline_def showing_state_def PipelineVisualizer_def custom_pipeline_def)
  have e: "repository_url initial_formData = []" "repository_content initial_formData = []"
    by (simp_all add: initial_formData_def)
  from validation_error_clears_pipeline
         [OF p(2) e, of "resolving custom_pipeline" "resolving no_language"] p(1) v
  show ?thesis by simp
qed

section \<open>Properties of the renderer\<close>

text \<open>
  C5. The visualizer returns \<^verbatim>\<open>null\<close> exactly when it is given no pipeline or a pipeline
  without \<^verbatim>\<open>stages\<close>. A document whose \<^verbatim>\<open>stages\<close> is the empty array and that has no
  summary is rendered: the result is the pipeline container holding the card with its
  heading, no stage entry and no summary section.
\<close>

theorem renders_nothing_iff:
  "(PipelineVisualizer pl = None) = (pl = None \<or> (\<exists>p. pl = Some p \<and> stages p = None))
   \<and> (stages p = Some [] \<and> \<not> truthy (summary p) \<longrightarrow>
        PipelineVisualizer (Some p) =
          Some (Element ''div'' ''pipeline-container''
                  [Element ''div'' ''card'' [Element ''h2'' [] [Text ''Generated Test Pipeline'']]]))"
  by (auto simp: PipelineVisualizer_def summary_nodes_def split: option.splits)

theorem renders_nothing_iff_witness:
  "PipelineVisualizer (Some empty_pipeline) =
     Some (Element ''div'' ''pipeline-container''
             [Element ''div'' ''card'' [Element ''h2'' [] [Text ''Generated Test Pipeline'']]])
   \<and> PipelineVisualizer (Some empty_pipeline) \<noteq> None"
  using renders_nothing_iff [of "Some empty_pipeline" empty_pipeline]
  by (simp add: empty_pipeline_def)

subsection \<open>Icon and label of a stage\<close>

text \<open>A type that is one of the seven keys gets that key's icon.\<close>

lemma stage_icon_recognized:
  "map_of stageIcons ty = Some i \<Longrightarrow> stage_icon ty = Svg i"
  by (simp add: stage_icon_def stageIcons_get_def)

text \<open>
  A type that is none of the seven keys gets the code quality icon, unless it names a
  property of \<^verbatim>\<open>Object.prototype\<close>, in which case it gets that property.
\<close>

lemma stage_icon_fallback:
  "map_of stageIcons ty = None \<Longrightarrow> ty \<notin> set Object_prototype_keys \<Longrightarrow>
   stage_icon ty = Svg Icon_code_quality"
  by (simp add: stage_icon_def stageIcons_get_def)

lemma stage_icon_inherited:
  "ty \<in> set Object_prototype_keys \<Longrightarrow> stage_icon ty = Inherited ty"
  by (auto simp: stage_icon_def stageIcons_get_def stageIcons_def Object_prototype_keys_def)

text \<open>The label is the type with each underscore turned into a space, and nothing else.\<close>

lemma stage_label_length: "length (stage_label ty) = length ty"
  by (simp add: stage_label_def)

lemma stage_label_nth:
  "i < length ty \<Longrightarrow> stage_label ty ! i = (if ty ! i = CHR ''_'' then CHR '' '' else ty ! i)"
  by (simp add: stage_label_def)

lemma custom_stage_rendering:
  "stage_label (stage_type custom_stage) = ''custom type''
   \<and> stage_icon (stage_type custom_stage) = Svg Icon_code_quality"
  by (simp add: custom_stage_def stage_label_def stage_icon_def stageIcons_get_def
      stageIcons_def Object_prototype_keys_def)

text \<open>
  C6 at a stage whose type is 'constructor'. The type is none of the seven keys of
  \<^verbatim>\<open>stageIcons\<close>, yet \<^verbatim>\<open>stageIcons['constructor']\<close> is not \<^verbatim>\<open>undefined\<close>: it is the
  function \<^verbatim>\<open>Object\<close>, inherited from \<^verbatim>\<open>Object.prototype\<close>. It is truthy, so
  \<^verbatim>\<open>|| stageIcons.code_quality\<close> is not taken, and the child placed in the stage title is
  that function and not the code quality icon. The label is as the claim says.
\<close>

theorem inherited_key_icon:
  "map_of stageIcons (stage_type constructor_stage) = None
   \<and> stage_icon (stage_type constructor_stage) = Inherited ''constructor''
   \<and> stage_icon (stage_type constructor_stage) \<noteq> Svg Icon_code_quality
   \<and> stage_label (stage_type constructor_stage) = ''constructor''"
  by (simp add: constructor_stage_def stage_icon_def stageIcons_get_def stageIcons_def
      Object_prototype_keys_def stage_label_def)

end
